theory Spec2Isabelle
  imports Main
begin

section \<open>JavaScript values\<close>

text \<open>
  The senders receive decoded JSON-like payloads and read ambient configuration whose
  shape the code inspects with \<^verbatim>\<open>typeof\<close>, truthiness and property reads. Numbers
  are the decoded JSON numbers; only whether a number is zero matters to the code below.
\<close>

datatype jsval =
    JUndefined
  | JNull
  | JBool bool
  | JNum int
  | JStr string
  | JArr "jsval list"
  | JObj "(string \<times> jsval) list"

text \<open>Truthiness of a value: what \<^verbatim>\<open>if (v)\<close>, \<^verbatim>\<open>!v\<close> and \<^verbatim>\<open>v || d\<close> test.\<close>

fun js_truthy :: "jsval \<Rightarrow> bool" where
  "js_truthy JUndefined = False"
| "js_truthy JNull = False"
| "js_truthy (JBool b) = b"
| "js_truthy (JNum n) = (n \<noteq> 0)"
| "js_truthy (JStr s) = (s \<noteq> [])"
| "js_truthy (JArr xs) = True"
| "js_truthy (JObj kvs) = True"

text \<open>\<^verbatim>\<open>v != null\<close>: loose inequality, false for both null and undefined.\<close>

fun js_not_nullish :: "jsval \<Rightarrow> bool" where
  "js_not_nullish JUndefined = False"
| "js_not_nullish JNull = False"
| "js_not_nullish v = True"

text \<open>\<^verbatim>\<open>typeof v === 'object'\<close> (null answers 'object' too).\<close>

fun js_typeof_object :: "jsval \<Rightarrow> bool" where
  "js_typeof_object JNull = True"
| "js_typeof_object (JArr xs) = True"
| "js_typeof_object (JObj kvs) = True"
| "js_typeof_object v = False"

text \<open>
  Property read \<^verbatim>\<open>v['k']\<close> for the keys the code reads (none of them is a built-in
  property of a primitive or of an array): an object answers its own entry, everything
  else answers undefined. The code only reads properties of values that passed
  \<^verbatim>\<open>!= null\<close>.
\<close>

fun js_get :: "jsval \<Rightarrow> string \<Rightarrow> jsval" where
  "js_get (JObj kvs) k = (case map_of kvs k of Some v \<Rightarrow> v | None \<Rightarrow> JUndefined)"
| "js_get v k = JUndefined"

text \<open>Assignment \<^verbatim>\<open>obj[k] = v\<close> on an object literal kept as an association list.\<close>

fun set_prop :: "(string \<times> jsval) list \<Rightarrow> string \<Rightarrow> jsval \<Rightarrow> (string \<times> jsval) list" where
  "set_prop [] k v = [(k, v)]"
| "set_prop ((k', v') # kvs) k v =
     (if k' = k then (k, v) # kvs else (k', v') # set_prop kvs k v)"

text \<open>Nullable string arguments (\<^verbatim>\<open>?string=\<close>): \<open>None\<close> is null or undefined.\<close>

fun truthy_str :: "string option \<Rightarrow> bool" where
  "truthy_str None = False"
| "truthy_str (Some s) = (s \<noteq> [])"

text \<open>\<^verbatim>\<open>x || null\<close> on a nullable string.\<close>

definition or_null :: "string option \<Rightarrow> string option" where
  "or_null x = (if truthy_str x then x else None)"

text \<open>The string held by a nullable string; read only under a truthiness guard.\<close>

fun str_of :: "string option \<Rightarrow> string" where
  "str_of None = []"
| "str_of (Some s) = s"

text \<open>\<^verbatim>\<open>[a, b, ...].join('/')\<close>.\<close>

fun join_slash :: "string list \<Rightarrow> string" where
  "join_slash [] = []"
| "join_slash [x] = x"
| "join_slash (x # y # ys) = x @ ''/'' @ join_slash (y # ys)"


section \<open>Telemetry context\<close>

subsection \<open>Key messages and browser context\<close>

record PartnerKey =
  pk_code :: string

record PartnerLocationKey =
  plk_code :: string
  plk_partner :: "PartnerKey option"

record PartnerDeviceKey =
  pdk_uuid :: string
  pdk_location :: "PartnerLocationKey option"

record UserKey =
  uk_uid :: string

record OrderKey =
  ok_id :: string

record VersionSpec =
  vs_name :: string

record DeviceOS =
  os_type :: int
  os_version :: "VersionSpec option"

record DeviceApplication =
  app_type :: int
  app_origin :: string

record DeviceLibrary =
  lib_variant :: string
  lib_version :: "VersionSpec option"

record BrowserDeviceContext =
  bdc_browserType :: int
  bdc_deviceType :: int
  bdc_version :: "VersionSpec option"
  bdc_os :: "DeviceOS option"
  bdc_app :: "DeviceApplication option"
  bdc_library :: "DeviceLibrary option"

record Collection =
  collection_name :: string

datatype ctx_error =
    ContextException string
  | TypeError

text \<open>
  \<^verbatim>\<open>new Collection(name, opt_skipb64encode)\<close>; the base64 encoder is not part of
  these sources and is taken as a parameter.
\<close>

definition Collection_new :: "(string \<Rightarrow> string) \<Rightarrow> string \<Rightarrow> bool \<Rightarrow> Collection" where
  "Collection_new b64encode name opt_skipb64encode =
     \<lparr>collection_name = (if opt_skipb64encode then name else b64encode name)\<rparr>"

definition Collection_serialize :: "Collection \<Rightarrow> jsval" where
  "Collection_serialize this = JObj [(''name'', JStr (collection_name this))]"

record ProtoCollection =
  pcol_name :: "string option"

definition Collection_export :: "Collection \<Rightarrow> ProtoCollection" where
  "Collection_export this = \<lparr>pcol_name = Some (collection_name this)\<rparr>"

subsection \<open>The Context constructor\<close>

record Context =
  ctx_collection :: "Collection option"
  ctx_fingerprint :: "string option"
  ctx_session :: "string option"
  ctx_location :: "PartnerLocationKey option"
  ctx_device :: "PartnerDeviceKey option"
  ctx_user :: "UserKey option"
  ctx_order :: "OrderKey option"
  ctx_browser :: "BrowserDeviceContext option"

text \<open>
  The constructor assigns \<^verbatim>\<open>collection, fingerprint, session, location, device, user,
  order, browser\<close> and nothing else: a \<^verbatim>\<open>partner\<close> property is never written, so
  reading \<^verbatim>\<open>this.partner\<close> answers undefined.
\<close>

definition this_partner :: "Context \<Rightarrow> jsval" where
  "this_partner this = JUndefined"

definition make_partnerKey :: "string option \<Rightarrow> PartnerKey option" where
  "make_partnerKey opt_partner =
     (if truthy_str opt_partner then Some \<lparr>pk_code = str_of opt_partner\<rparr> else None)"

text \<open>Both tests of the location branch are the source's, in the source's order.\<close>

definition make_locationKey ::
  "string option \<Rightarrow> string option \<Rightarrow> PartnerKey option \<Rightarrow> ctx_error + PartnerLocationKey option" where
  "make_locationKey opt_partner opt_location partnerKey =
     (if truthy_str opt_partner \<and> truthy_str opt_location then
        Inr (Some \<lparr>plk_code = str_of opt_location, plk_partner = partnerKey\<rparr>)
      else if truthy_str opt_partner \<and> truthy_str opt_location then
        Inl (ContextException ''Cannot provide location context without partner context.'')
      else Inr None)"

definition make_deviceKey :: "string option \<Rightarrow> PartnerLocationKey option \<Rightarrow> PartnerDeviceKey option" where
  "make_deviceKey opt_device locationKey =
     (if truthy_str opt_device then
        Some \<lparr>pdk_uuid = str_of opt_device, pdk_location = locationKey\<rparr>
      else None)"

definition Context_new ::
  "Collection option \<Rightarrow> string option \<Rightarrow> string option \<Rightarrow> string option \<Rightarrow> string option \<Rightarrow>
   string option \<Rightarrow> string option \<Rightarrow> string option \<Rightarrow> BrowserDeviceContext option \<Rightarrow>
   ctx_error + Context" where
  "Context_new opt_collection opt_partner opt_location opt_fingerprint opt_session
     opt_user opt_device opt_order opt_browser =
     (let partnerKey = make_partnerKey opt_partner in
      case make_locationKey opt_partner opt_location partnerKey of
        Inl e \<Rightarrow> Inl e
      | Inr locationKey \<Rightarrow>
          Inr \<lparr>ctx_collection = opt_collection,
               ctx_fingerprint = or_null opt_fingerprint,
               ctx_session = or_null opt_session,
               ctx_location = locationKey,
               ctx_device = make_deviceKey opt_device locationKey,
               ctx_user = (if truthy_str opt_user then Some \<lparr>uk_uid = str_of opt_user\<rparr> else None),
               ctx_order = (if truthy_str opt_order then Some \<lparr>ok_id = str_of opt_order\<rparr> else None),
               ctx_browser = opt_browser\<rparr>)"

subsection \<open>Plain-object rendering\<close>

definition resolveVersion :: "VersionSpec option \<Rightarrow> jsval" where
  "resolveVersion protob =
     (case protob of
        Some v \<Rightarrow> (if vs_name v \<noteq> [] then JObj [(''name'', JStr (vs_name v))] else JObj [])
      | None \<Rightarrow> JObj [])"

text \<open>
  The object literal is evaluated top to bottom; a getter called on an unset sub-message
  (\<^verbatim>\<open>protob.getOs().getType()\<close>) is a TypeError.
\<close>

definition serializeBrowserContext :: "BrowserDeviceContext \<Rightarrow> ctx_error + jsval" where
  "serializeBrowserContext protob =
     (case bdc_os protob of None \<Rightarrow> Inl TypeError | Some os \<Rightarrow>
     (case bdc_app protob of None \<Rightarrow> Inl TypeError | Some app \<Rightarrow>
     (case bdc_library protob of None \<Rightarrow> Inl TypeError | Some lib \<Rightarrow>
        Inr (JObj
          [(''browserType'', JNum (bdc_browserType protob)),
           (''deviceType'', JNum (bdc_deviceType protob)),
           (''version'', resolveVersion (bdc_version protob)),
           (''os'', JObj [(''type'', JNum (os_type os)),
                          (''version'', resolveVersion (os_version os))]),
           (''app'', JObj [(''type'', JNum (app_type app)),
                           (''origin'', JStr (app_origin app))]),
           (''library'', JObj [(''variant'', JStr (lib_variant lib)),
                               (''version'', resolveVersion (lib_version lib))])]))))"

text \<open>\<^verbatim>\<open>this.location.getPartner().getCode()\<close>.\<close>

definition location_partner_code :: "PartnerLocationKey \<Rightarrow> ctx_error + string" where
  "location_partner_code loc =
     (case plk_partner loc of None \<Rightarrow> Inl TypeError | Some pk \<Rightarrow> Inr (pk_code pk))"

text \<open>
  The value of the local \<^verbatim>\<open>partnerScope\<close> after the location/device/partner branches
  of \<^verbatim>\<open>serialize\<close>. In the branch without a device the array literal still reads
  \<^verbatim>\<open>this.device.getUuid()\<close>; in the branch without a location the partner branch reads
  \<^verbatim>\<open>this.location.getPartner()\<close>.
\<close>

definition serialize_partnerScope :: "Context \<Rightarrow> ctx_error + string option" where
  "serialize_partnerScope this =
     (case ctx_location this of
        Some loc \<Rightarrow>
          (case ctx_device this of
             Some dev \<Rightarrow>
               (case location_partner_code loc of
                  Inl e \<Rightarrow> Inl e
                | Inr p \<Rightarrow> Inr (Some (join_slash [p, plk_code loc, pdk_uuid dev])))
           | None \<Rightarrow>
               (case location_partner_code loc of
                  Inl e \<Rightarrow> Inl e
                | Inr p \<Rightarrow> Inl TypeError))
      | None \<Rightarrow>
          (if js_truthy (this_partner this) then Inl TypeError else Inr None))"

text \<open>The five field assignments that open \<^verbatim>\<open>serialize\<close>, in the source's order.\<close>

definition serialize_fields :: "Context \<Rightarrow> (string \<times> jsval) list" where
  "serialize_fields this =
     (let baseContext = [];
          baseContext = (case ctx_collection this of
                           Some c \<Rightarrow> set_prop baseContext ''collection'' (Collection_serialize c)
                         | None \<Rightarrow> baseContext);
          baseContext = (if truthy_str (ctx_fingerprint this)
                         then set_prop baseContext ''fingerprint'' (JStr (str_of (ctx_fingerprint this)))
                         else baseContext);
          baseContext = (if truthy_str (ctx_session this)
                         then set_prop baseContext ''group'' (JStr (str_of (ctx_session this)))
                         else baseContext);
          baseContext = (case ctx_user this of
                           Some u \<Rightarrow> set_prop baseContext ''user'' (JObj [(''uid'', JStr (uk_uid u))])
                         | None \<Rightarrow> baseContext);
          baseContext = (case ctx_order this of
                           Some ord \<Rightarrow> set_prop baseContext ''order'' (JObj [(''id'', JStr (ok_id ord))])
                         | None \<Rightarrow> baseContext)
      in baseContext)"

text \<open>The scope assignments: the partner scope, then the order scope when no scope is set.\<close>

definition serialize_scope :: "Context \<Rightarrow> string option \<Rightarrow> (string \<times> jsval) list \<Rightarrow> (string \<times> jsval) list" where
  "serialize_scope this partnerScope baseContext0 =
     (let baseContext = (if truthy_str partnerScope
                         then set_prop baseContext0 ''scope''
                                (JObj [(''partner'', JStr (str_of partnerScope))])
                         else baseContext0);
          baseContext = (case ctx_order this of
                           Some ord \<Rightarrow>
                             (if \<not> js_truthy (js_get (JObj baseContext) ''scope'')
                              then set_prop baseContext ''scope''
                                     (JObj [(''order'', JStr (ok_id ord))])
                              else baseContext)
                         | None \<Rightarrow> baseContext)
      in baseContext)"

definition serialize :: "Context \<Rightarrow> ctx_error + (string \<times> jsval) list" where
  "serialize this =
     (let baseContext = serialize_fields this
      in case serialize_partnerScope this of
           Inl e \<Rightarrow> Inl e
         | Inr partnerScope \<Rightarrow>
             (let baseContext = serialize_scope this partnerScope baseContext
              in case ctx_browser this of
                   Some b \<Rightarrow>
                     (case serializeBrowserContext b of
                        Inl e \<Rightarrow> Inl e
                      | Inr v \<Rightarrow> Inr (set_prop baseContext ''browser'' v))
                 | None \<Rightarrow> Inr baseContext))"

subsection \<open>Wire export\<close>

record ProtoScope =
  scope_partner :: "string option"
  scope_commercial :: "string option"

record ProtoContext =
  pc_fingerprint :: "string option"
  pc_group :: "string option"
  pc_collection :: "ProtoCollection option"
  pc_user :: "UserKey option"
  pc_scope :: "ProtoScope option"
  pc_browser :: "BrowserDeviceContext option"

text \<open>
  The local \<^verbatim>\<open>scope\<close> message of \<^verbatim>\<open>export\<close> after the partner-context branches.
\<close>

definition export_local_scope :: "Context \<Rightarrow> ctx_error + ProtoScope" where
  "export_local_scope this =
     (case ctx_location this of
        Some loc \<Rightarrow>
          (case ctx_device this of
             Some dev \<Rightarrow>
               (case location_partner_code loc of
                  Inl e \<Rightarrow> Inl e
                | Inr p \<Rightarrow>
                    Inr \<lparr>scope_partner =
                           Some (''partner/'' @ p @ ''location/'' @ plk_code loc @
                                 ''device/'' @ pdk_uuid dev),
                         scope_commercial = None\<rparr>)
           | None \<Rightarrow>
               (case location_partner_code loc of
                  Inl e \<Rightarrow> Inl e
                | Inr p \<Rightarrow>
                    Inr \<lparr>scope_partner = Some (''partner/'' @ p @ ''location/'' @ plk_code loc),
                         scope_commercial = None\<rparr>))
      | None \<Rightarrow> Inr \<lparr>scope_partner = None, scope_commercial = None\<rparr>)"

text \<open>
  \<^verbatim>\<open>export\<close> fills a fresh \<^verbatim>\<open>proto.analytics.Context\<close>. The local scope message is
  computed but the function has no \<^verbatim>\<open>context.setScope\<close> call, so the returned message
  keeps its scope unset.
\<close>

definition export :: "Context \<Rightarrow> ctx_error + ProtoContext" where
  "export this =
     (case export_local_scope this of
        Inl e \<Rightarrow> Inl e
      | Inr scope \<Rightarrow>
          Inr \<lparr>pc_fingerprint = (if truthy_str (ctx_fingerprint this) then ctx_fingerprint this else None),
               pc_group = (if truthy_str (ctx_session this) then ctx_session this else None),
               pc_collection = map_option Collection_export (ctx_collection this),
               pc_user = ctx_user this,
               pc_scope = None,
               pc_browser = ctx_browser this\<rparr>)"


subsection \<open>Device fingerprint cache\<close>

text \<open>
  The process-wide state read and written by \<^verbatim>\<open>resolveFingerprint\<close>: the in-memory
  global \<^verbatim>\<open>DEVICE_FINGERPRINT\<close> and the browser's \<^verbatim>\<open>window.localStorage\<close>.
  \<^verbatim>\<open>bloombox.util.generateUUID\<close> is not part of these sources: it is taken as a
  parameter answering the identifier of the \<open>n\<close>-th request, and the state counts the
  requests made. Logging calls are a fire-and-forget sink and are left out of the state.
\<close>

record telemetry_state =
  DEVICE_FINGERPRINT :: "string option"
  localStorage :: "string \<rightharpoonup> string"
  uuids_generated :: nat

definition DEVICE_FINGERPRINT_KEY :: string where
  "DEVICE_FINGERPRINT_KEY = ''bb:v1:t.df''"

definition resolveFingerprint ::
  "(nat \<Rightarrow> string) \<Rightarrow> telemetry_state \<Rightarrow> string option \<times> telemetry_state" where
  "resolveFingerprint generateUUID st =
     (let st' =
        (if DEVICE_FINGERPRINT st = None then
           (let existingFingerprint = localStorage st DEVICE_FINGERPRINT_KEY in
            if truthy_str existingFingerprint then
              st\<lparr>DEVICE_FINGERPRINT := existingFingerprint\<rparr>
            else
              (let newDeviceFingerprint = generateUUID (uuids_generated st) in
               st\<lparr>DEVICE_FINGERPRINT := Some newDeviceFingerprint,
                  localStorage := (localStorage st)(DEVICE_FINGERPRINT_KEY \<mapsto> newDeviceFingerprint),
                  uuids_generated := Suc (uuids_generated st)\<rparr>))
         else st)
      in (DEVICE_FINGERPRINT st', st'))"

text \<open>The browser primitive \<^verbatim>\<open>window.localStorage.clear()\<close>, applied between calls.\<close>

definition clear_localStorage :: "telemetry_state \<Rightarrow> telemetry_state" where
  "clear_localStorage st = st\<lparr>localStorage := Map.empty\<rparr>"


section \<open>Event serialization dispatch\<close>

text \<open>An optional argument that is left out, passed as null, or passed with a value.\<close>

datatype 'a js_arg = ArgUndefined | ArgNull | Arg 'a

definition EVENT :: string where
  "EVENT = ''genericEvent''"

definition EXCEPTION :: string where
  "EXCEPTION = ''genericError''"

record ('v, 'c) TelemetryEvent =
  te_generic :: "'v option"
  te_error :: "'v option"
  te_context :: "'c option"

datatype 'v serialization_error =
  SerializationException string string 'v

text \<open>
  \<^verbatim>\<open>serializeGeneric(type, value, opt_context, opt_err)\<close>. A result \<open>Inr None\<close> is the
  returned null. Setting the context to null leaves the message field unset.
\<close>

definition serializeGeneric ::
  "string \<Rightarrow> 'v \<Rightarrow> 'c js_arg \<Rightarrow> jsval \<Rightarrow>
   'v serialization_error + ('v, 'c) TelemetryEvent option" where
  "serializeGeneric type value opt_context opt_err =
     (let doThrow = (if opt_err = JUndefined then JBool True else opt_err);
          event = \<lparr>te_generic = None, te_error = None, te_context = None\<rparr>;
          switched =
            (if type = EVENT then Inr (Some (event\<lparr>te_generic := Some value\<rparr>))
             else if type = EXCEPTION then Inr (Some (event\<lparr>te_error := Some value\<rparr>))
             else if js_truthy doThrow then
               Inl (SerializationException ''Unable to serialize generic TelemetryEvent.'' type value)
             else Inr None)
      in case switched of
           Inl e \<Rightarrow> Inl e
         | Inr None \<Rightarrow> Inr None
         | Inr (Some event) \<Rightarrow>
             (if opt_context \<noteq> ArgUndefined then
                Inr (Some (event\<lparr>te_context := (case opt_context of Arg c \<Rightarrow> Some c | _ \<Rightarrow> None)\<rparr>))
              else Inr (Some event)))"


section \<open>Request senders\<close>

text \<open>
  A sender runs in two phases. The synchronous phase checks its input and the ambient
  configuration and either throws, returns early, or constructs a \<^verbatim>\<open>ShopRPC\<close> and
  calls \<^verbatim>\<open>rpc.send(success, failure)\<close>. The transport (not part of these sources) then
  fires the registered continuations; what it fires is a list of events. The callback is
  only ever invoked from a continuation, and every invocation is recorded with its
  arguments. Logging calls are left out, except for the error that enroll's guard logs
  instead of throwing.
\<close>

record config =
  cfg_partner :: jsval
  cfg_location :: jsval

datatype Routine = SHOP_INFO | CHECK_ZIP | ENROLL_USER

record 'p ShopRPC =
  rpc_routine :: Routine
  rpc_method :: string
  rpc_endpoint :: string
  rpc_payload :: "'p option"

datatype transport_event = OnSuccess jsval | OnFailure jsval

datatype ('e, 'r) sync_phase =
    Threw 'e
  | LoggedErrorAndReturned string
  | Issued 'r

text \<open>\<^verbatim>\<open>typeof v === 'string' && v.length > 1\<close>.\<close>

fun string_longer_than_one :: "jsval \<Rightarrow> bool" where
  "string_longer_than_one (JStr s) = (length s > 1)"
| "string_longer_than_one v = False"

text \<open>The characters of a string value, read only after \<^verbatim>\<open>typeof v === 'string'\<close>.\<close>

fun js_chars :: "jsval \<Rightarrow> string" where
  "js_chars (JStr s) = s"
| "js_chars v = []"

subsection \<open>Shop info\<close>

datatype shop_info_error =
  ShopInfoException string

datatype shop_info_call =
  ShopInfoCallback "bool option" "bool option" jsval

definition shop_info_send :: "config \<Rightarrow> (shop_info_error, 'p ShopRPC) sync_phase" where
  "shop_info_send cfg =
     (let partnerCode = cfg_partner cfg;
          locationCode = cfg_location cfg
      in if \<not> js_truthy partnerCode \<or>
            \<not> string_longer_than_one partnerCode \<or>
            \<not> string_longer_than_one locationCode
         then Threw (ShopInfoException
                (''Partner and location must be set via `bloombox.shop.setup` before'' @
                 '' retrieving shop info.''))
         else Issued \<lparr>rpc_routine = SHOP_INFO, rpc_method = ''GET'',
                      rpc_endpoint = join_slash [''partners'', js_chars partnerCode,
                                                 ''locations'', js_chars locationCode,
                                                 ''shop'', ''info''],
                      rpc_payload = None\<rparr>)"

text \<open>The \<^verbatim>\<open>switch\<close> over \<^verbatim>\<open>response['shopStatus'] || 'OPEN'\<close>: (pickup, delivery).\<close>

definition shop_status_switch :: "jsval \<Rightarrow> bool \<times> bool" where
  "shop_status_switch shopStatus =
     (let status = (if js_truthy shopStatus then shopStatus else JStr ''OPEN'')
      in if status = JStr ''CLOSED'' then (False, False)
         else if status = JStr ''DELIVERY_ONLY'' then (False, True)
         else if status = JStr ''PICKUP_ONLY'' then (True, False)
         else (True, True))"

text \<open>
  The success continuation, from the value of \<^verbatim>\<open>done\<close> when it fires to the value
  after it, with the callback invocations it makes.
\<close>

definition shop_info_success :: "bool \<Rightarrow> jsval \<Rightarrow> bool \<times> shop_info_call list" where
  "shop_info_success done response =
     (if done then (done, [])
      else if js_not_nullish response then
        (True,
         if js_typeof_object response then
           (case shop_status_switch (js_get response ''shopStatus'') of
              (pickup, delivery) \<Rightarrow> [ShopInfoCallback (Some pickup) (Some delivery) JNull])
         else [ShopInfoCallback None None JNull])
      else (done, []))"

definition shop_info_failure :: "bool \<Rightarrow> jsval \<Rightarrow> bool \<times> shop_info_call list" where
  "shop_info_failure done status =
     (done, [ShopInfoCallback None None (if js_truthy status then status else JNull)])"

fun shop_info_deliver :: "bool \<Rightarrow> transport_event list \<Rightarrow> shop_info_call list" where
  "shop_info_deliver done [] = []"
| "shop_info_deliver done (OnSuccess response # evs) =
     (case shop_info_success done response of
        (done', calls) \<Rightarrow> calls @ shop_info_deliver done' evs)"
| "shop_info_deliver done (OnFailure status # evs) =
     (case shop_info_failure done status of
        (done', calls) \<Rightarrow> calls @ shop_info_deliver done' evs)"

definition shop_info ::
  "config \<Rightarrow> ('p ShopRPC \<Rightarrow> transport_event list) \<Rightarrow>
   (shop_info_error, 'p ShopRPC) sync_phase \<times> shop_info_call list" where
  "shop_info cfg transport =
     (case shop_info_send cfg of
        Issued rpc \<Rightarrow> (Issued rpc, shop_info_deliver False (transport rpc))
      | r \<Rightarrow> (r, []))"


subsection \<open>Zipcode check\<close>

text \<open>
  \<^verbatim>\<open>isNaN(parseInt(zipcode, 10))\<close>: \<^verbatim>\<open>parseInt\<close> skips leading white space and one
  optional sign, and answers NaN exactly when no decimal digit follows. White space is
  taken within the eight-bit characters of \<open>string\<close>.
\<close>

definition js_whitespace :: "char \<Rightarrow> bool" where
  "js_whitespace c \<longleftrightarrow>
     c \<in> set [CHR 0x09, CHR 0x0A, CHR 0x0B, CHR 0x0C, CHR 0x0D, CHR 0x20, CHR 0xA0]"

definition js_digit :: "char \<Rightarrow> bool" where
  "js_digit c \<longleftrightarrow> c \<in> set ''0123456789''"

definition parseInt10_isNaN :: "string \<Rightarrow> bool" where
  "parseInt10_isNaN s =
     (let t = dropWhile js_whitespace s;
          u = (case t of
                 [] \<Rightarrow> t
               | c # r \<Rightarrow> (if c = CHR ''+'' \<or> c = CHR ''-'' then r else t))
      in case u of
           [] \<Rightarrow> True
         | c # r \<Rightarrow> \<not> js_digit c)"

text \<open>
  The two exceptions of \<^verbatim>\<open>zipcheck\<close> differ in their message: the first quotes the
  rejected zipcode, the second is the fixed text about partner and location.
\<close>

datatype zipcheck_error =
    ZipcheckException_invalid_zipcode jsval
  | ZipcheckException_partner_location string

datatype zipcheck_call =
  ZipCheckCallback "bool option"

definition zipcheck_send :: "jsval \<Rightarrow> config \<Rightarrow> (zipcheck_error, 'p ShopRPC) sync_phase" where
  "zipcheck_send zipcode cfg =
     (if \<not> js_truthy zipcode \<or>
         \<not> (case zipcode of JStr z \<Rightarrow> True | _ \<Rightarrow> False) \<or>
         \<not> (length (js_chars zipcode) = 5) \<or>
         parseInt10_isNaN (js_chars zipcode)
      then Threw (ZipcheckException_invalid_zipcode zipcode)
      else
        (let partnerCode = cfg_partner cfg;
             locationCode = cfg_location cfg
         in if \<not> js_truthy partnerCode \<or>
               \<not> string_longer_than_one partnerCode \<or>
               \<not> string_longer_than_one locationCode
            then Threw (ZipcheckException_partner_location
                   (''Partner and location must be set via `bloombox.shop.setup` before'' @
                    '' conducting a zipcode eligibility check.''))
            else Issued \<lparr>rpc_routine = CHECK_ZIP, rpc_method = ''GET'',
                         rpc_endpoint = join_slash [''partners'', js_chars partnerCode,
                                                    ''locations'', js_chars locationCode,
                                                    ''zipcheck'', js_chars zipcode],
                         rpc_payload = None\<rparr>))"

definition zipcheck_success :: "bool \<Rightarrow> jsval \<Rightarrow> bool \<times> zipcheck_call list" where
  "zipcheck_success done response =
     (if done then (done, [])
      else if js_not_nullish response then
        (True,
         if js_typeof_object response then
           (let supported = (js_get response ''supported'' = JBool True)
            in [ZipCheckCallback (Some supported)])
         else [ZipCheckCallback None])
      else (done, []))"

definition zipcheck_failure :: "bool \<Rightarrow> jsval \<Rightarrow> bool \<times> zipcheck_call list" where
  "zipcheck_failure done status = (done, [ZipCheckCallback None])"

fun zipcheck_deliver :: "bool \<Rightarrow> transport_event list \<Rightarrow> zipcheck_call list" where
  "zipcheck_deliver done [] = []"
| "zipcheck_deliver done (OnSuccess response # evs) =
     (case zipcheck_success done response of
        (done', calls) \<Rightarrow> calls @ zipcheck_deliver done' evs)"
| "zipcheck_deliver done (OnFailure status # evs) =
     (case zipcheck_failure done status of
        (done', calls) \<Rightarrow> calls @ zipcheck_deliver done' evs)"

definition zipcheck ::
  "jsval \<Rightarrow> config \<Rightarrow> ('p ShopRPC \<Rightarrow> transport_event list) \<Rightarrow>
   (zipcheck_error, 'p ShopRPC) sync_phase \<times> zipcheck_call list" where
  "zipcheck zipcode cfg transport =
     (case zipcheck_send zipcode cfg of
        Issued rpc \<Rightarrow> (Issued rpc, zipcheck_deliver False (transport rpc))
      | r \<Rightarrow> (r, []))"

subsection \<open>Enroll\<close>

text \<open>
  The enrollment as far as \<^verbatim>\<open>send\<close> branches on it: the optional password, the doctor's
  website (a property of the doctor's recommendation, whose class is not part of these
  sources, so any value), the dry-run flag, and the person handed to the customer. The
  remaining fields (source, channel, names, contact, recommendation, license) are copied
  into the request body field by field and are kept together as \<open>enr_fields\<close>.
\<close>

record ('person, 'fields) Enrollment =
  enr_person :: 'person
  enr_fields :: 'fields
  enr_password :: "string option"
  enr_doctorWebsite :: jsval
  enr_dryRun :: bool

record ('person, 'fields) EnrollRequest =
  req_person :: 'person
  req_fields :: 'fields
  req_partnerCode :: jsval
  req_locationCode :: jsval
  req_password :: "string option"
  req_dryRun :: "bool option"

text \<open>
  Modelled from the spec: \<^verbatim>\<open>bloombox.shop.Customer\<close> is not part of these sources. The
  handler constructs it from the enrolling person and the response's \<^verbatim>\<open>foreignId\<close>;
  the spec calls the result a customer with the foreign id.
\<close>

record 'person Customer =
  customer_person :: 'person
  customer_foreignId :: jsval

datatype enroll_error = EnrollTypeError

datatype 'person enroll_call =
  EnrollCallback bool jsval "'person Customer option"

text \<open>
  The synchronous phase. After the guard the request body is built; the doctor's website
  is written under \<^verbatim>\<open>rawObject['doctorRec']['person']['contact']\<close>, and the body has no
  \<^verbatim>\<open>person\<close> entry under \<^verbatim>\<open>doctorRec\<close>, so that statement is a TypeError whenever it
  runs.
\<close>

definition Enrollment_send ::
  "('person, 'fields) Enrollment \<Rightarrow> config \<Rightarrow>
   (enroll_error, ('person, 'fields) EnrollRequest ShopRPC) sync_phase" where
  "Enrollment_send this cfg =
     (let partner = cfg_partner cfg;
          location = cfg_location cfg
      in if \<not> js_truthy partner \<or> \<not> js_truthy location
         then LoggedErrorAndReturned ''Partner or location code is not defined.''
         else
           (let rawObject = \<lparr>req_person = enr_person this, req_fields = enr_fields this,
                              req_partnerCode = partner, req_locationCode = location,
                              req_password = None, req_dryRun = None\<rparr>;
                rawObject = (if enr_password this \<noteq> None
                             then rawObject\<lparr>req_password := enr_password this\<rparr>
                             else rawObject)
            in if enr_doctorWebsite this \<noteq> JNull then Threw EnrollTypeError
               else
                 (let rawObject = (if enr_dryRun this = True
                                   then rawObject\<lparr>req_dryRun := Some True\<rparr>
                                   else rawObject)
                  in Issued \<lparr>rpc_routine = ENROLL_USER, rpc_method = ''POST'',
                               rpc_endpoint = ''members'', rpc_payload = Some rawObject\<rparr>)))"

text \<open>
  The success continuation. The error is passed through a fresh response message
  (\<^verbatim>\<open>inflated.setError\<close> then \<^verbatim>\<open>inflated.getError\<close>), which hands back the value it
  was given.
\<close>

definition enroll_success ::
  "'person \<Rightarrow> bool \<Rightarrow> jsval \<Rightarrow> bool \<times> 'person enroll_call list" where
  "enroll_success personObj done response =
     (if done then (done, [])
      else if js_not_nullish response then
        (True,
         if js_truthy (js_get response ''error'') then
           [EnrollCallback False (js_get response ''error'') None]
         else if js_truthy (js_get response ''id'') \<and> js_truthy (js_get response ''foreignId'') then
           [EnrollCallback True JNull
              (Some \<lparr>customer_person = personObj,
                     customer_foreignId = js_get response ''foreignId''\<rparr>)]
         else [EnrollCallback False JNull None])
      else (done, [EnrollCallback False JNull None]))"

definition enroll_failure ::
  "bool \<Rightarrow> jsval \<Rightarrow> bool \<times> 'person enroll_call list" where
  "enroll_failure done status = (done, [EnrollCallback False JNull None])"

fun enroll_deliver ::
  "'person \<Rightarrow> bool \<Rightarrow> transport_event list \<Rightarrow> 'person enroll_call list" where
  "enroll_deliver personObj done [] = []"
| "enroll_deliver personObj done (OnSuccess response # evs) =
     (case enroll_success personObj done response of
        (done', calls) \<Rightarrow> calls @ enroll_deliver personObj done' evs)"
| "enroll_deliver personObj done (OnFailure status # evs) =
     (case enroll_failure done status of
        (done', calls) \<Rightarrow> calls @ enroll_deliver personObj done' evs)"

definition Enrollment_run ::
  "('person, 'fields) Enrollment \<Rightarrow> config \<Rightarrow>
   (('person, 'fields) EnrollRequest ShopRPC \<Rightarrow> transport_event list) \<Rightarrow>
   (enroll_error, ('person, 'fields) EnrollRequest ShopRPC) sync_phase \<times> 'person enroll_call list" where
  "Enrollment_run this cfg transport =
     (case Enrollment_send this cfg of
        Issued rpc \<Rightarrow> (Issued rpc, enroll_deliver (enr_person this) False (transport rpc))
      | r \<Rightarrow> (r, []))"


section \<open>Predicates and inputs used by the properties\<close>

text \<open>A rendered value that is neither null nor undefined.\<close>

definition defined_val :: "jsval \<Rightarrow> bool" where
  "defined_val v \<longleftrightarrow> v \<noteq> JNull \<and> v \<noteq> JUndefined"

text \<open>
  The specification's words for the ambient configuration of the senders: a code is
  missing when it is absent or empty, and malformed when it is not a string of more than
  one character.
\<close>

definition config_missing :: "config \<Rightarrow> bool" where
  "config_missing cfg \<longleftrightarrow> \<not> js_truthy (cfg_partner cfg) \<or> \<not> js_truthy (cfg_location cfg)"

definition config_malformed :: "config \<Rightarrow> bool" where
  "config_malformed cfg \<longleftrightarrow>
     \<not> string_longer_than_one (cfg_partner cfg) \<or> \<not> string_longer_than_one (cfg_location cfg)"

text \<open>Concrete inputs on which the properties are exercised.\<close>

definition ex_browser :: BrowserDeviceContext where
  "ex_browser =
     \<lparr>bdc_browserType = 1, bdc_deviceType = 1,
      bdc_version = Some \<lparr>vs_name = ''120.0''\<rparr>,
      bdc_os = Some \<lparr>os_type = 5, os_version = Some \<lparr>vs_name = ''14.2''\<rparr>\<rparr>,
      bdc_app = Some \<lparr>app_type = 0, app_origin = ''https://shop.example''\<rparr>,
      bdc_library = Some \<lparr>lib_variant = ''full'', lib_version = Some \<lparr>vs_name = ''v1r1''\<rparr>\<rparr>\<rparr>"

definition ex_location :: PartnerLocationKey where
  "ex_location = \<lparr>plk_code = ''sf'', plk_partner = Some \<lparr>pk_code = ''acme''\<rparr>\<rparr>"

definition ex_full_context :: Context where
  "ex_full_context =
     \<lparr>ctx_collection = Some \<lparr>collection_name = ''Y2FydA==''\<rparr>,
      ctx_fingerprint = Some ''fp-1'', ctx_session = Some ''sess-1'',
      ctx_location = Some ex_location,
      ctx_device = Some \<lparr>pdk_uuid = ''dev-1'', pdk_location = Some ex_location\<rparr>,
      ctx_user = Some \<lparr>uk_uid = ''user-1''\<rparr>, ctx_order = Some \<lparr>ok_id = ''order-1''\<rparr>,
      ctx_browser = Some ex_browser\<rparr>"

definition ex_order_context :: Context where
  "ex_order_context =
     \<lparr>ctx_collection = None, ctx_fingerprint = None, ctx_session = None, ctx_location = None,
      ctx_device = None, ctx_user = None, ctx_order = Some \<lparr>ok_id = ''order-1''\<rparr>,
      ctx_browser = None\<rparr>"

definition ex_scoped_context :: Context where
  "ex_scoped_context =
     \<lparr>ctx_collection = None, ctx_fingerprint = None, ctx_session = None,
      ctx_location = Some ex_location,
      ctx_device = Some \<lparr>pdk_uuid = ''dev-1'', pdk_location = Some ex_location\<rparr>,
      ctx_user = None, ctx_order = None, ctx_browser = None\<rparr>"

definition ex_config :: config where
  "ex_config = \<lparr>cfg_partner = JStr ''acme'', cfg_location = JStr ''sf''\<rparr>"

definition ex_short_config :: config where
  "ex_short_config = \<lparr>cfg_partner = JStr ''a'', cfg_location = JStr ''b''\<rparr>"

definition ex_empty_config :: config where
  "ex_empty_config = \<lparr>cfg_partner = JUndefined, cfg_location = JUndefined\<rparr>"

definition ex_enrollment :: "(string, unit) Enrollment" where
  "ex_enrollment = \<lparr>enr_person = ''Jane Doe'', enr_fields = (), enr_password = None,
                     enr_doctorWebsite = JNull, enr_dryRun = False\<rparr>"

definition ex_generateUUID :: "nat \<Rightarrow> string" where
  "ex_generateUUID n = ''uuid-'' @ replicate n (CHR ''x'')"

definition ex_state :: telemetry_state where
  "ex_state = \<lparr>DEVICE_FINGERPRINT = None, localStorage = Map.empty, uuids_generated = 0\<rparr>"


section \<open>Properties of the telemetry context\<close>

subsection \<open>Object assignments and the staged rendering\<close>

lemma map_of_set_prop: "map_of (set_prop kvs k v) = (map_of kvs)(k \<mapsto> v)"
  by (induction kvs k v rule: set_prop.induct) (auto simp: fun_eq_iff)

lemma keys_set_prop: "fst ` set (set_prop kvs k v) = insert k (fst ` set kvs)"
  by (induction kvs k v rule: set_prop.induct) auto

lemma key_set_prop_iff:
  "k' \<in> fst ` set (set_prop kvs k v) \<longleftrightarrow> k' = k \<or> k' \<in> fst ` set kvs"
  by (simp add: keys_set_prop)

lemma list_all_set_prop:
  "\<lbrakk>list_all P kvs; P (k, v)\<rbrakk> \<Longrightarrow> list_all P (set_prop kvs k v)"
  by (induction kvs k v rule: set_prop.induct) simp_all

lemma keys_serialize_fields:
  "k \<in> fst ` set (serialize_fields c) \<longleftrightarrow>
     (k = ''collection'' \<and> ctx_collection c \<noteq> None) \<or>
     (k = ''fingerprint'' \<and> truthy_str (ctx_fingerprint c)) \<or>
     (k = ''group'' \<and> truthy_str (ctx_session c)) \<or>
     (k = ''user'' \<and> ctx_user c \<noteq> None) \<or>
     (k = ''order'' \<and> ctx_order c \<noteq> None)"
  apply (cases "ctx_collection c"; cases "ctx_user c"; cases "ctx_order c";
         cases "truthy_str (ctx_fingerprint c)"; cases "truthy_str (ctx_session c)")
  apply (simp_all add: serialize_fields_def Let_def key_set_prop_iff disj_commute disj_left_commute del: set_prop.simps)
  done

lemma vals_serialize_fields:
  "list_all (\<lambda>kv. defined_val (snd kv)) (serialize_fields c)"
  apply (cases "ctx_collection c"; cases "ctx_user c"; cases "ctx_order c";
         cases "truthy_str (ctx_fingerprint c)"; cases "truthy_str (ctx_session c)")
  apply (simp_all add: serialize_fields_def Let_def Collection_serialize_def defined_val_def)
  done

lemma scope_not_in_fields: "map_of (serialize_fields c) ''scope'' = None"
proof -
  have "''scope'' \<notin> fst ` set (serialize_fields c)"
    by (simp add: keys_serialize_fields)
  then show ?thesis by (simp add: map_of_eq_None_iff)
qed

lemma keys_serialize_scope:
  assumes "map_of base ''scope'' = None"
  shows "k \<in> fst ` set (serialize_scope c ps base) \<longleftrightarrow>
           k \<in> fst ` set base \<or> (k = ''scope'' \<and> (truthy_str ps \<or> ctx_order c \<noteq> None))"
  using assms
  apply (cases "ctx_order c"; cases "truthy_str ps")
  apply (simp_all add: serialize_scope_def Let_def key_set_prop_iff map_of_set_prop disj_commute disj_left_commute
        del: set_prop.simps)
  done

lemma vals_serialize_scope:
  assumes "list_all (\<lambda>kv. defined_val (snd kv)) base"
  shows "list_all (\<lambda>kv. defined_val (snd kv)) (serialize_scope c ps base)"
  using assms
  apply (cases "ctx_order c"; cases "truthy_str ps")
  apply (simp_all add: serialize_scope_def Let_def list_all_set_prop defined_val_def
        del: set_prop.simps)
  done

lemma scope_serialize_scope:
  assumes "map_of base ''scope'' = None"
  shows "map_of (serialize_scope c ps base) ''scope'' =
           (if truthy_str ps then Some (JObj [(''partner'', JStr (str_of ps))])
            else case ctx_order c of
                   Some ord \<Rightarrow> Some (JObj [(''order'', JStr (ok_id ord))])
                 | None \<Rightarrow> None)"
  using assms
  apply (cases "ctx_order c"; cases "truthy_str ps")
  apply (simp_all add: serialize_scope_def Let_def map_of_set_prop del: set_prop.simps)
  done


lemma Context_new_total:
  "\<exists>c. Context_new col p l f s u d ord b = Inr c"
  by (simp add: Context_new_def make_locationKey_def Let_def)

lemma Context_new_fields:
  assumes "Context_new col p l f s u d ord b = Inr c"
  shows "ctx_collection c = col"
    and "ctx_fingerprint c = or_null f"
    and "ctx_session c = or_null s"
    and "ctx_location c \<noteq> None \<longleftrightarrow> truthy_str p \<and> truthy_str l"
    and "ctx_device c \<noteq> None \<longleftrightarrow> truthy_str d"
    and "ctx_user c \<noteq> None \<longleftrightarrow> truthy_str u"
    and "ctx_order c \<noteq> None \<longleftrightarrow> truthy_str ord"
    and "ctx_browser c = b"
  using assms
  by (auto simp: Context_new_def make_locationKey_def make_deviceKey_def Let_def
      split: if_splits)

lemma truthy_or_null: "truthy_str (or_null x) = truthy_str x"
  by (simp add: or_null_def)

lemma partnerScope_truthy:
  assumes "serialize_partnerScope c = Inr ps" and "truthy_str ps"
  shows "ctx_location c \<noteq> None \<and> ctx_device c \<noteq> None"
  using assms
  by (cases "ctx_location c"; cases "ctx_device c")
     (simp_all add: serialize_partnerScope_def this_partner_def split: sum.splits)

lemma serialize_Inr:
  assumes "serialize c = Inr obj"
  obtains ps where "serialize_partnerScope c = Inr ps"
    and "ctx_browser c = None \<and> obj = serialize_scope c ps (serialize_fields c) \<or>
         (\<exists>b bv. ctx_browser c = Some b \<and> serializeBrowserContext b = Inr bv \<and>
            obj = set_prop (serialize_scope c ps (serialize_fields c)) ''browser'' bv)"
  using assms
  by (cases "serialize_partnerScope c"; cases "ctx_browser c")
     (auto simp: serialize_def Let_def split: sum.splits simp del: set_prop.simps)

lemma defined_browser:
  "serializeBrowserContext b = Inr bv \<Longrightarrow> defined_val bv"
  by (auto simp: serializeBrowserContext_def defined_val_def split: option.splits)

lemma serialize_keys:
  assumes "serialize c = Inr obj" and "k \<in> fst ` set obj"
  shows "k \<in> fst ` set (serialize_fields c) \<or>
         (k = ''scope'' \<and> (ctx_location c \<noteq> None \<and> ctx_device c \<noteq> None \<or> ctx_order c \<noteq> None)) \<or>
         (k = ''browser'' \<and> ctx_browser c \<noteq> None)"
proof -
  from assms(1) obtain ps where ps: "serialize_partnerScope c = Inr ps"
    and obj: "ctx_browser c = None \<and> obj = serialize_scope c ps (serialize_fields c) \<or>
         (\<exists>b bv. ctx_browser c = Some b \<and> serializeBrowserContext b = Inr bv \<and>
            obj = set_prop (serialize_scope c ps (serialize_fields c)) ''browser'' bv)"
    by (rule serialize_Inr)
  let ?mid = "serialize_scope c ps (serialize_fields c)"
  have mid: "k \<in> fst ` set ?mid \<Longrightarrow> ?thesis"
    using keys_serialize_scope [OF scope_not_in_fields, of k c ps] partnerScope_truthy [OF ps]
    by blast
  from obj show ?thesis
  proof
    assume "ctx_browser c = None \<and> obj = ?mid"
    with assms(2) mid show ?thesis by simp
  next
    assume "\<exists>b bv. ctx_browser c = Some b \<and> serializeBrowserContext b = Inr bv \<and>
            obj = set_prop ?mid ''browser'' bv"
    then obtain b bv where b: "ctx_browser c = Some b" and o: "obj = set_prop ?mid ''browser'' bv"
      by blast
    from assms(2) o have "k = ''browser'' \<or> k \<in> fst ` set ?mid"
      by (simp add: key_set_prop_iff)
    with b mid show ?thesis by auto
  qed
qed

lemma serialize_vals:
  assumes "serialize c = Inr obj"
  shows "list_all (\<lambda>kv. defined_val (snd kv)) obj"
proof -
  from assms(1) obtain ps where ps: "serialize_partnerScope c = Inr ps"
    and obj: "ctx_browser c = None \<and> obj = serialize_scope c ps (serialize_fields c) \<or>
         (\<exists>b bv. ctx_browser c = Some b \<and> serializeBrowserContext b = Inr bv \<and>
            obj = set_prop (serialize_scope c ps (serialize_fields c)) ''browser'' bv)"
    by (rule serialize_Inr)
  let ?mid = "serialize_scope c ps (serialize_fields c)"
  have mid: "list_all (\<lambda>kv. defined_val (snd kv)) ?mid"
    by (rule vals_serialize_scope [OF vals_serialize_fields])
  from obj show ?thesis
  proof
    assume "ctx_browser c = None \<and> obj = ?mid"
    with mid show ?thesis by simp
  next
    assume "\<exists>b bv. ctx_browser c = Some b \<and> serializeBrowserContext b = Inr bv \<and>
            obj = set_prop ?mid ''browser'' bv"
    then obtain b bv where b: "serializeBrowserContext b = Inr bv" and o: "obj = set_prop ?mid ''browser'' bv"
      by blast
    show ?thesis unfolding o
      by (rule list_all_set_prop [OF mid]) (simp add: defined_browser [OF b])
  qed
qed


lemma serialize_scope_entry:
  assumes "serialize c = Inr obj" and "map_of obj ''scope'' = Some sc"
  shows "(\<exists>s. sc = JObj [(''partner'', JStr s)] \<and> ctx_location c \<noteq> None \<and> ctx_device c \<noteq> None) \<or>
         (\<exists>ord. ctx_order c = Some ord \<and> sc = JObj [(''order'', JStr (ok_id ord))])"
proof -
  from assms(1) obtain ps where ps: "serialize_partnerScope c = Inr ps"
    and obj: "ctx_browser c = None \<and> obj = serialize_scope c ps (serialize_fields c) \<or>
         (\<exists>b bv. ctx_browser c = Some b \<and> serializeBrowserContext b = Inr bv \<and>
            obj = set_prop (serialize_scope c ps (serialize_fields c)) ''browser'' bv)"
    by (rule serialize_Inr)
  let ?mid = "serialize_scope c ps (serialize_fields c)"
  from obj assms(2) have "map_of ?mid ''scope'' = Some sc"
    by (auto simp: map_of_set_prop simp del: set_prop.simps)
  then have *: "(if truthy_str ps then Some (JObj [(''partner'', JStr (str_of ps))])
            else case ctx_order c of
                   Some ord \<Rightarrow> Some (JObj [(''order'', JStr (ok_id ord))])
                 | None \<Rightarrow> None) = Some sc"
    by (simp only: scope_serialize_scope [OF scope_not_in_fields])
  show ?thesis
  proof (cases "truthy_str ps")
    case True
    with * partnerScope_truthy [OF ps] show ?thesis by auto
  next
    case False
    with * show ?thesis by (cases "ctx_order c") auto
  qed
qed

lemma export_Inr:
  assumes "export c = Inr m"
  shows "pc_fingerprint m = (if truthy_str (ctx_fingerprint c) then ctx_fingerprint c else None)"
    and "pc_group m = (if truthy_str (ctx_session c) then ctx_session c else None)"
    and "pc_collection m = map_option Collection_export (ctx_collection c)"
    and "pc_user m = ctx_user c"
    and "pc_scope m = None"
    and "pc_browser m = ctx_browser c"
  using assms by (auto simp: export_def split: sum.splits)

lemmas ctor_defs = Context_new_def make_partnerKey_def make_locationKey_def make_deviceKey_def
  or_null_def Let_def

lemmas render_defs = serialize_def serialize_fields_def serialize_scope_def
  serialize_partnerScope_def location_partner_code_def this_partner_def Collection_serialize_def
  serializeBrowserContext_def resolveVersion_def export_def export_local_scope_def
  Collection_export_def Let_def

lemma ex_full_context_new:
  "Context_new (Some \<lparr>collection_name = ''Y2FydA==''\<rparr>) (Some ''acme'') (Some ''sf'')
     (Some ''fp-1'') (Some ''sess-1'') (Some ''user-1'') (Some ''dev-1'') (Some ''order-1'')
     (Some ex_browser) = Inr ex_full_context"
  by (simp add: ctor_defs ex_full_context_def ex_location_def)

lemma ex_order_context_new:
  "Context_new None None None None None None None (Some ''order-1'') None = Inr ex_order_context"
  by (simp add: ctor_defs ex_order_context_def)

lemma ex_scoped_context_new:
  "Context_new None (Some ''acme'') (Some ''sf'') None None None (Some ''dev-1'') None None =
     Inr ex_scoped_context"
  by (simp add: ctor_defs ex_scoped_context_def ex_location_def)

lemma ex_full_context_serialize:
  "serialize ex_full_context =
     Inr [(''collection'', JObj [(''name'', JStr ''Y2FydA=='')]),
          (''fingerprint'', JStr ''fp-1''),
          (''group'', JStr ''sess-1''),
          (''user'', JObj [(''uid'', JStr ''user-1'')]),
          (''order'', JObj [(''id'', JStr ''order-1'')]),
          (''scope'', JObj [(''partner'', JStr ''acme/sf/dev-1'')]),
          (''browser'', JObj
             [(''browserType'', JNum 1), (''deviceType'', JNum 1),
              (''version'', JObj [(''name'', JStr ''120.0'')]),
              (''os'', JObj [(''type'', JNum 5), (''version'', JObj [(''name'', JStr ''14.2'')])]),
              (''app'', JObj [(''type'', JNum 0), (''origin'', JStr ''https://shop.example'')]),
              (''library'', JObj [(''variant'', JStr ''full''),
                                  (''version'', JObj [(''name'', JStr ''v1r1'')])])])]"
  by (simp add: render_defs ex_full_context_def ex_location_def ex_browser_def)

lemma ex_order_context_serialize:
  "serialize ex_order_context =
     Inr [(''order'', JObj [(''id'', JStr ''order-1'')]),
          (''scope'', JObj [(''order'', JStr ''order-1'')])]"
  by (simp add: render_defs ex_order_context_def)

lemma ex_full_context_export:
  "export ex_full_context =
     Inr \<lparr>pc_fingerprint = Some ''fp-1'', pc_group = Some ''sess-1'',
          pc_collection = Some \<lparr>pcol_name = Some ''Y2FydA==''\<rparr>,
          pc_user = Some \<lparr>uk_uid = ''user-1''\<rparr>, pc_scope = None,
          pc_browser = Some ex_browser\<rparr>"
  by (simp add: render_defs ex_full_context_def ex_location_def)

lemma Context_location_has_partner:
  assumes "Context_new col p l f s u d ord b = Inr c" and "ctx_location c = Some loc"
  shows "truthy_str p \<and> plk_partner loc = Some \<lparr>pk_code = str_of p\<rparr>"
  using assms by (auto simp: ctor_defs split: if_splits)

subsection \<open>Construction\<close>

text \<open>
  Claim C1 says that a location supplied without a partner makes the constructor raise a
  ContextException. The constructor tests \<^verbatim>\<open>opt_partner && opt_location\<close> twice, so
  the throwing branch is never taken: at the input below (no partner, location
  \<^verbatim>\<open>'sf'\<close>) it returns a context whose location is null.
\<close>

theorem location_without_partner_is_accepted:
  "Context_new None None (Some ''sf'') None None None None None None =
     Inr \<lparr>ctx_collection = None, ctx_fingerprint = None, ctx_session = None,
          ctx_location = None, ctx_device = None, ctx_user = None, ctx_order = None,
          ctx_browser = None\<rparr>"
  by (simp add: ctor_defs)

subsection \<open>Renderings\<close>

text \<open>
  Claim C2 says that the wire export and the plain-object form agree on the scope, both
  carrying \<^verbatim>\<open>scope.partner\<close> as the identifiers joined with slashes. For the context
  built from partner \<^verbatim>\<open>'acme'\<close>, location \<^verbatim>\<open>'sf'\<close> and device \<^verbatim>\<open>'dev-1'\<close> the
  plain-object form carries \<^verbatim>\<open>'acme/sf/dev-1'\<close>, while the exported message has no scope
  at all; the scope message that \<^verbatim>\<open>export\<close> computes and drops holds a different
  string.
\<close>

theorem renderings_disagree_on_scope:
  "Context_new None (Some ''acme'') (Some ''sf'') None None None (Some ''dev-1'') None None =
     Inr ex_scoped_context \<and>
   serialize ex_scoped_context = Inr [(''scope'', JObj [(''partner'', JStr ''acme/sf/dev-1'')])] \<and>
   export ex_scoped_context =
     Inr \<lparr>pc_fingerprint = None, pc_group = None, pc_collection = None, pc_user = None,
          pc_scope = None, pc_browser = None\<rparr> \<and>
   export_local_scope ex_scoped_context =
     Inr \<lparr>scope_partner = Some ''partner/acmelocation/sfdevice/dev-1'', scope_commercial = None\<rparr>"
  by (simp add: ex_scoped_context_new) (simp add: render_defs ex_scoped_context_def ex_location_def)

text \<open>
  Claim C4: neither rendering of a constructed context carries a key for a field that was
  not supplied. In the plain-object form every top-level key comes from a supplied
  argument (the scope entry from partner, location and device together, or from the order
  whose id it then holds), no other key occurs, and no entry is null or undefined. In the
  exported message every set field comes from a supplied argument, and the scope field is
  never set.
\<close>

theorem absent_fields_emit_no_key:
  assumes "Context_new col p l f s u d ord b = Inr c"
  shows "(\<forall>obj. serialize c = Inr obj \<longrightarrow>
            (''collection'' \<in> fst ` set obj \<longrightarrow> col \<noteq> None) \<and>
            (''fingerprint'' \<in> fst ` set obj \<longrightarrow> truthy_str f) \<and>
            (''group'' \<in> fst ` set obj \<longrightarrow> truthy_str s) \<and>
            (''user'' \<in> fst ` set obj \<longrightarrow> truthy_str u) \<and>
            (''order'' \<in> fst ` set obj \<longrightarrow> truthy_str ord) \<and>
            (''scope'' \<in> fst ` set obj \<longrightarrow>
               truthy_str p \<and> truthy_str l \<and> truthy_str d \<or> truthy_str ord) \<and>
            (js_get (js_get (JObj obj) ''scope'') ''partner'' \<noteq> JUndefined \<longrightarrow>
               truthy_str p \<and> truthy_str l \<and> truthy_str d) \<and>
            (js_get (js_get (JObj obj) ''scope'') ''order'' \<noteq> JUndefined \<longrightarrow> truthy_str ord) \<and>
            (''browser'' \<in> fst ` set obj \<longrightarrow> b \<noteq> None) \<and>
            fst ` set obj \<subseteq> {''collection'', ''fingerprint'', ''group'', ''user'', ''order'',
                                ''scope'', ''browser''} \<and>
            (\<forall>kv \<in> set obj. snd kv \<noteq> JNull \<and> snd kv \<noteq> JUndefined)) \<and>
         (\<forall>m. export c = Inr m \<longrightarrow>
            (pc_collection m \<noteq> None \<longrightarrow> col \<noteq> None) \<and>
            (pc_fingerprint m \<noteq> None \<longrightarrow> truthy_str f) \<and>
            (pc_group m \<noteq> None \<longrightarrow> truthy_str s) \<and>
            (pc_user m \<noteq> None \<longrightarrow> truthy_str u) \<and>
            pc_scope m = None \<and>
            (pc_browser m \<noteq> None \<longrightarrow> b \<noteq> None))"
proof (intro conjI allI impI)
  note F = Context_new_fields [OF assms]
  fix obj assume S: "serialize c = Inr obj"
  have K: "\<And>k. k \<in> fst ` set obj \<Longrightarrow>
         k \<in> fst ` set (serialize_fields c) \<or>
         (k = ''scope'' \<and> (ctx_location c \<noteq> None \<and> ctx_device c \<noteq> None \<or> ctx_order c \<noteq> None)) \<or>
         (k = ''browser'' \<and> ctx_browser c \<noteq> None)"
    by (rule serialize_keys [OF S])
  { assume "''collection'' \<in> fst ` set obj"
    from K [OF this] show "col \<noteq> None" by (simp add: keys_serialize_fields F del: not_None_eq) }
  { assume "''fingerprint'' \<in> fst ` set obj"
    from K [OF this] show "truthy_str f" by (simp add: keys_serialize_fields F truthy_or_null del: not_None_eq) }
  { assume "''group'' \<in> fst ` set obj"
    from K [OF this] show "truthy_str s" by (simp add: keys_serialize_fields F truthy_or_null del: not_None_eq) }
  { assume "''user'' \<in> fst ` set obj"
    from K [OF this] show "truthy_str u" by (simp add: keys_serialize_fields F del: not_None_eq) }
  { assume "''order'' \<in> fst ` set obj"
    from K [OF this] show "truthy_str ord" by (simp add: keys_serialize_fields F del: not_None_eq) }
  { assume "''scope'' \<in> fst ` set obj"
    from K [OF this] show "truthy_str p \<and> truthy_str l \<and> truthy_str d \<or> truthy_str ord"
      by (simp add: keys_serialize_fields F del: not_None_eq) }
  { assume A: "js_get (js_get (JObj obj) ''scope'') ''partner'' \<noteq> JUndefined"
    then obtain sc where sc: "map_of obj ''scope'' = Some sc"
      by (cases "map_of obj ''scope''") auto
    from serialize_scope_entry [OF S sc]
    have R: "truthy_str p \<and> truthy_str l \<and> truthy_str d"
    proof (elim disjE exE conjE)
      assume "ctx_location c \<noteq> None" and "ctx_device c \<noteq> None"
      then show ?thesis by (simp only: F simp_thms)
    next
      fix x :: OrderKey assume "sc = JObj [(''order'', JStr (ok_id x))]"
      with A sc show ?thesis by simp
    qed
    from R show "truthy_str p" and "truthy_str l" and "truthy_str d" by simp_all }
  { assume A: "js_get (js_get (JObj obj) ''scope'') ''order'' \<noteq> JUndefined"
    then obtain sc where sc: "map_of obj ''scope'' = Some sc"
      by (cases "map_of obj ''scope''") auto
    from serialize_scope_entry [OF S sc]
    show "truthy_str ord"
    proof (elim disjE exE conjE)
      fix x assume "sc = JObj [(''partner'', JStr x)]"
      with A sc show ?thesis by simp
    next
      fix x assume "ctx_order c = Some x"
      then have "ctx_order c \<noteq> None" by simp
      then show ?thesis by (simp only: F)
    qed }
  { assume "''browser'' \<in> fst ` set obj"
    from K [OF this] show "b \<noteq> None" by (simp add: keys_serialize_fields F del: not_None_eq) }
  { show "fst ` set obj \<subseteq> {''collection'', ''fingerprint'', ''group'', ''user'', ''order'',
                                ''scope'', ''browser''}"
    proof
      fix k assume "k \<in> fst ` set obj"
      from K [OF this] show "k \<in> {''collection'', ''fingerprint'', ''group'', ''user'', ''order'',
                                ''scope'', ''browser''}"
        by (auto simp: keys_serialize_fields)
    qed }
  { show "\<forall>kv \<in> set obj. snd kv \<noteq> JNull \<and> snd kv \<noteq> JUndefined"
      using serialize_vals [OF S] by (simp add: list_all_iff defined_val_def) }
next
  note F = Context_new_fields [OF assms]
  fix m assume E: "export c = Inr m"
  note X = export_Inr [OF E]
  { assume "pc_collection m \<noteq> None" then show "col \<noteq> None" by (simp add: X F) }
  { assume "pc_fingerprint m \<noteq> None" then show "truthy_str f"
      by (simp add: X F truthy_or_null split: if_splits) }
  { assume "pc_group m \<noteq> None" then show "truthy_str s"
      by (simp add: X F truthy_or_null split: if_splits) }
  { assume "pc_user m \<noteq> None"
    then have "ctx_user c \<noteq> None" by (simp add: X)
    then show "truthy_str u" by (simp only: F(6)) }
  { show "pc_scope m = None" by (rule X) }
  { assume "pc_browser m \<noteq> None" then show "b \<noteq> None" by (simp add: X F) }
qed

theorem absent_fields_emit_no_key_witness:
  "(\<exists>obj m. serialize ex_full_context = Inr obj \<and> export ex_full_context = Inr m \<and>
      fst ` set obj = {''collection'', ''fingerprint'', ''group'', ''user'', ''order'',
                       ''scope'', ''browser''} \<and>
      js_get (js_get (JObj obj) ''scope'') ''partner'' \<noteq> JUndefined \<and>
      (\<forall>kv \<in> set obj. snd kv \<noteq> JNull \<and> snd kv \<noteq> JUndefined) \<and>
      pc_collection m \<noteq> None \<and> pc_fingerprint m \<noteq> None \<and> pc_group m \<noteq> None \<and>
      pc_user m \<noteq> None \<and> pc_scope m = None \<and> pc_browser m \<noteq> None) \<and>
   (\<exists>obj. serialize ex_order_context = Inr obj \<and>
      fst ` set obj = {''order'', ''scope''} \<and>
      js_get (js_get (JObj obj) ''scope'') ''order'' \<noteq> JUndefined \<and>
      (\<forall>kv \<in> set obj. snd kv \<noteq> JNull \<and> snd kv \<noteq> JUndefined))"
proof -
  note A = absent_fields_emit_no_key [OF ex_full_context_new]
  note B = absent_fields_emit_no_key [OF ex_order_context_new]
  show ?thesis
    using A B
    by (simp add: ex_full_context_serialize ex_full_context_export ex_order_context_serialize)
qed

text \<open>
  Claim C5: for a context constructed with partner and location but no device, the
  construction succeeds and \<^verbatim>\<open>serialize\<close> ends in a TypeError, whatever the other
  arguments are.
\<close>

theorem serialize_without_device_throws:
  assumes "truthy_str opt_partner" and "truthy_str opt_location" and "\<not> truthy_str opt_device"
  shows "\<exists>c. Context_new col opt_partner opt_location f s u opt_device ord b = Inr c \<and>
             serialize c = Inl TypeError"
  using assms
  by (simp add: ctor_defs serialize_def serialize_partnerScope_def location_partner_code_def)

theorem serialize_without_device_throws_witness:
  "truthy_str (Some ''acme'') \<and> truthy_str (Some ''sf'') \<and> \<not> truthy_str None \<and>
   (\<exists>c. Context_new None (Some ''acme'') (Some ''sf'') (Some ''fp-1'') (Some ''sess-1'') None None
          None (Some ex_browser) = Inr c \<and>
        serialize c = Inl TypeError)"
  using serialize_without_device_throws [of "Some ''acme''" "Some ''sf''" None None "Some ''fp-1''"
      "Some ''sess-1''" None None "Some ex_browser"]
  by simp

subsection \<open>Device fingerprint\<close>

text \<open>
  Claim C6 says that a call after the storage slot was cleared returns a new, distinct
  string. Starting from an empty cache and empty storage, the first call generates
  \<^verbatim>\<open>'uuid-'\<close>; after \<^verbatim>\<open>localStorage.clear()\<close> the second call still returns
  \<^verbatim>\<open>'uuid-'\<close>.
\<close>

theorem cached_fingerprint_survives_storage_clear:
  "fst (resolveFingerprint ex_generateUUID ex_state) = Some ''uuid-'' \<and>
   fst (resolveFingerprint ex_generateUUID
          (clear_localStorage (snd (resolveFingerprint ex_generateUUID ex_state)))) = Some ''uuid-''"
  by (simp add: resolveFingerprint_def ex_generateUUID_def ex_state_def clear_localStorage_def
      Let_def)

text \<open>
  Claim C6, amended: within one process a call to \<^verbatim>\<open>resolveFingerprint\<close> returns a
  string, a second call returns the identical string, and it does so as well when the
  storage slot is cleared between the two calls, since the in-process cache answers
  first.
\<close>

theorem resolveFingerprint_stable_in_process:
  "fst (resolveFingerprint g st) \<noteq> None \<and>
   fst (resolveFingerprint g (snd (resolveFingerprint g st))) = fst (resolveFingerprint g st) \<and>
   fst (resolveFingerprint g (clear_localStorage (snd (resolveFingerprint g st)))) =
     fst (resolveFingerprint g st)"
  by (cases "localStorage st DEVICE_FINGERPRINT_KEY")
     (auto simp: resolveFingerprint_def clear_localStorage_def Let_def)


section \<open>Properties of the event serializer\<close>

text \<open>
  Claim C10: for the EVENT tag the envelope has the generic event set and the error
  unset, for the EXCEPTION tag the error set and the generic event unset, in both cases
  with the context when one is supplied. For any other tag the function raises a
  SerializationException carrying the tag and the payload when the flag is left out or
  truthy, and returns null when the flag is given and falsy.
\<close>

theorem serializeGeneric_dispatch:
  "serializeGeneric EVENT v ctx err =
     Inr (Some \<lparr>te_generic = Some v, te_error = None,
                te_context = (case ctx of Arg c \<Rightarrow> Some c | _ \<Rightarrow> None)\<rparr>) \<and>
   serializeGeneric EXCEPTION v ctx err =
     Inr (Some \<lparr>te_generic = None, te_error = Some v,
                te_context = (case ctx of Arg c \<Rightarrow> Some c | _ \<Rightarrow> None)\<rparr>) \<and>
   (t \<noteq> EVENT \<and> t \<noteq> EXCEPTION \<longrightarrow>
      (err = JUndefined \<or> js_truthy err \<longrightarrow>
         serializeGeneric t v ctx err =
           Inl (SerializationException ''Unable to serialize generic TelemetryEvent.'' t v)) \<and>
      (err \<noteq> JUndefined \<and> \<not> js_truthy err \<longrightarrow>
         serializeGeneric t v ctx err = Inr None))"
  by (cases ctx) (auto simp: serializeGeneric_def EVENT_def EXCEPTION_def Let_def)

theorem serializeGeneric_dispatch_witness:
  "''sectionView'' \<noteq> EVENT \<and> ''sectionView'' \<noteq> EXCEPTION \<and>
   serializeGeneric ''sectionView'' ''payload'' (Arg ''ctx'') JUndefined =
     Inl (SerializationException ''Unable to serialize generic TelemetryEvent.''
            ''sectionView'' ''payload'') \<and>
   serializeGeneric ''sectionView'' ''payload'' (Arg ''ctx'') (JBool True) =
     Inl (SerializationException ''Unable to serialize generic TelemetryEvent.''
            ''sectionView'' ''payload'') \<and>
   serializeGeneric ''sectionView'' ''payload'' (Arg ''ctx'') (JBool False) = Inr None \<and>
   serializeGeneric EVENT ''payload'' (Arg ''ctx'') JUndefined =
     Inr (Some \<lparr>te_generic = Some ''payload'', te_error = None, te_context = Some ''ctx''\<rparr>)"
  using serializeGeneric_dispatch [of "''payload''" "Arg ''ctx''" JUndefined "''sectionView''"]
    serializeGeneric_dispatch [of "''payload''" "Arg ''ctx''" "JBool True" "''sectionView''"]
    serializeGeneric_dispatch [of "''payload''" "Arg ''ctx''" "JBool False" "''sectionView''"]
  by (simp add: EVENT_def EXCEPTION_def)


section \<open>Properties of the request senders\<close>

lemma success_handlers_fire_once_on_payload:
  assumes "js_not_nullish r"
  shows "length (snd (zipcheck_success False r)) = 1"
    and "length (snd (shop_info_success False r)) = 1"
    and "length (snd (enroll_success person False r)) = 1"
  using assms
  by (simp_all add: zipcheck_success_def shop_info_success_def enroll_success_def Let_def
      split: prod.splits)

lemma failure_handlers_fire_once:
  "length (snd (zipcheck_failure d st)) = 1"
  "length (snd (shop_info_failure d st)) = 1"
  "length (snd (enroll_failure d st :: bool \<times> 'p enroll_call list)) = 1"
  by (simp_all add: zipcheck_failure_def shop_info_failure_def enroll_failure_def)

text \<open>
  Claim C3 says that every outcome delivered by the transport invokes the callback exactly
  once. When the transport fires the success continuation with null, the handlers of
  zipcheck and shop-info test \<^verbatim>\<open>response != null\<close> and have no other branch: the RPC
  was issued and the callback is never invoked. The enroll handler has that branch and
  invokes the callback once.
\<close>

theorem null_payload_leaves_callback_unresolved:
  "zipcheck (JStr ''94110'') ex_config (\<lambda>rpc :: unit ShopRPC. [OnSuccess JNull]) =
     (Issued \<lparr>rpc_routine = CHECK_ZIP, rpc_method = ''GET'',
              rpc_endpoint = ''partners/acme/locations/sf/zipcheck/94110'',
              rpc_payload = None\<rparr>, []) \<and>
   shop_info ex_config (\<lambda>rpc :: unit ShopRPC. [OnSuccess JNull]) =
     (Issued \<lparr>rpc_routine = SHOP_INFO, rpc_method = ''GET'',
              rpc_endpoint = ''partners/acme/locations/sf/shop/info'',
              rpc_payload = None\<rparr>, []) \<and>
   snd (Enrollment_run ex_enrollment ex_config (\<lambda>rpc. [OnSuccess JNull])) =
     [EnrollCallback False JNull None]"
  by (simp add: zipcheck_def zipcheck_send_def zipcheck_success_def shop_info_def
      shop_info_send_def shop_info_success_def Enrollment_run_def Enrollment_send_def
      enroll_success_def ex_config_def ex_enrollment_def parseInt10_isNaN_def js_whitespace_def
      js_digit_def Let_def)

lemma missing_is_malformed: "config_missing cfg \<Longrightarrow> config_malformed cfg"
  unfolding config_missing_def config_malformed_def
  by (cases "cfg_partner cfg"; cases "cfg_location cfg") auto

text \<open>
  Claim C7 says that with missing or malformed codes enroll only logs and returns. With the
  one-character codes \<^verbatim>\<open>'a'\<close> and \<^verbatim>\<open>'b'\<close>, which shop-info rejects by raising,
  enroll's guard passes and the request is issued.
\<close>

theorem enroll_sends_with_short_codes:
  "config_malformed ex_short_config \<and>
   (shop_info_send ex_short_config :: (shop_info_error, unit ShopRPC) sync_phase) =
     Threw (ShopInfoException
       ''Partner and location must be set via `bloombox.shop.setup` before retrieving shop info.'') \<and>
   Enrollment_send ex_enrollment ex_short_config =
     Issued \<lparr>rpc_routine = ENROLL_USER, rpc_method = ''POST'', rpc_endpoint = ''members'',
             rpc_payload = Some \<lparr>req_person = ''Jane Doe'', req_fields = (),
                                  req_partnerCode = JStr ''a'', req_locationCode = JStr ''b'',
                                  req_password = None, req_dryRun = None\<rparr>\<rparr>"
  by (simp add: config_malformed_def ex_short_config_def shop_info_send_def Enrollment_send_def
      ex_enrollment_def Let_def)

text \<open>
  Claim C7, amended: when a code is missing or malformed, shop-info and zipcheck raise
  before any RPC is issued and invoke no callback. When a code is missing, enroll logs an
  error and returns, raising nothing, issuing no RPC and invoking no callback. When both
  codes are present, enroll does not take that path, whatever their shape.
\<close>

theorem missing_config_guards:
  "(config_missing cfg \<or> config_malformed cfg \<longrightarrow>
      (\<exists>m. shop_info cfg tr1 = (Threw (ShopInfoException m), [])) \<and>
      (\<exists>e. zipcheck z cfg tr2 = (Threw e, []))) \<and>
   (config_missing cfg \<longrightarrow>
      Enrollment_run enr cfg tr3 =
        (LoggedErrorAndReturned ''Partner or location code is not defined.'', [])) \<and>
   (\<not> config_missing cfg \<longrightarrow>
      (\<forall>m. fst (Enrollment_run enr cfg tr3) \<noteq> LoggedErrorAndReturned m))"
proof (intro conjI impI)
  assume "config_missing cfg \<or> config_malformed cfg"
  then have M: "config_malformed cfg" using missing_is_malformed by blast
  then have G: "\<not> js_truthy (cfg_partner cfg) \<or> \<not> string_longer_than_one (cfg_partner cfg) \<or>
            \<not> string_longer_than_one (cfg_location cfg)"
    by (auto simp: config_malformed_def)
  from G show "\<exists>m. shop_info cfg tr1 = (Threw (ShopInfoException m), [])"
    by (simp add: shop_info_def shop_info_send_def Let_def)
  from G show "\<exists>e. zipcheck z cfg tr2 = (Threw e, [])"
    by (simp add: zipcheck_def zipcheck_send_def Let_def)
next
  assume "config_missing cfg"
  then show "Enrollment_run enr cfg tr3 =
        (LoggedErrorAndReturned ''Partner or location code is not defined.'', [])"
    by (simp add: config_missing_def Enrollment_run_def Enrollment_send_def Let_def)
next
  assume "\<not> config_missing cfg"
  then show "\<forall>m. fst (Enrollment_run enr cfg tr3) \<noteq> LoggedErrorAndReturned m"
    by (simp add: config_missing_def Enrollment_run_def Enrollment_send_def Let_def)
qed

theorem missing_config_guards_witness:
  "config_missing ex_empty_config \<and>
   (\<exists>m. shop_info ex_empty_config (\<lambda>rpc :: unit ShopRPC. [OnSuccess (JObj [])]) =
          (Threw (ShopInfoException m), [])) \<and>
   (\<exists>e. zipcheck (JStr ''94110'') ex_empty_config (\<lambda>rpc :: unit ShopRPC. [OnSuccess (JObj [])]) =
          (Threw e, [])) \<and>
   Enrollment_run ex_enrollment ex_empty_config (\<lambda>rpc. [OnSuccess (JObj [])]) =
     (LoggedErrorAndReturned ''Partner or location code is not defined.'', []) \<and>
   \<not> config_missing ex_short_config \<and> config_malformed ex_short_config \<and>
   (\<exists>m. shop_info ex_short_config (\<lambda>rpc :: unit ShopRPC. [OnSuccess (JObj [])]) =
          (Threw (ShopInfoException m), [])) \<and>
   (\<forall>m. fst (Enrollment_run ex_enrollment ex_short_config (\<lambda>rpc. [OnSuccess (JObj [])])) \<noteq>
          LoggedErrorAndReturned m)"
proof -
  have a: "config_missing ex_empty_config"
    by (simp add: config_missing_def ex_empty_config_def)
  have b: "\<not> config_missing ex_short_config" "config_malformed ex_short_config"
    by (simp_all add: config_missing_def config_malformed_def ex_short_config_def)
  show ?thesis
    using a b
      missing_config_guards [of ex_empty_config "\<lambda>rpc :: unit ShopRPC. [OnSuccess (JObj [])]"
        "JStr ''94110''" "\<lambda>rpc :: unit ShopRPC. [OnSuccess (JObj [])]" ex_enrollment
        "\<lambda>rpc. [OnSuccess (JObj [])]"]
      missing_config_guards [of ex_short_config "\<lambda>rpc :: unit ShopRPC. [OnSuccess (JObj [])]"
        "JStr ''94110''" "\<lambda>rpc :: unit ShopRPC. [OnSuccess (JObj [])]" ex_enrollment
        "\<lambda>rpc. [OnSuccess (JObj [])]"]
    by simp
qed

text \<open>
  Claim C8: for a response object, the status PICKUP_ONLY is reported as pickup without
  delivery, an absent status as pickup and delivery, CLOSED as neither, and DELIVERY_ONLY
  as delivery without pickup; each with a null error code, and each by one invocation.
\<close>

theorem shop_status_mapping:
  assumes "js_not_nullish response" and "js_typeof_object response"
  shows "(js_get response ''shopStatus'' = JStr ''PICKUP_ONLY'' \<longrightarrow>
            shop_info_success False response =
              (True, [ShopInfoCallback (Some True) (Some False) JNull])) \<and>
         (js_get response ''shopStatus'' = JUndefined \<longrightarrow>
            shop_info_success False response =
              (True, [ShopInfoCallback (Some True) (Some True) JNull])) \<and>
         (js_get response ''shopStatus'' = JStr ''CLOSED'' \<longrightarrow>
            shop_info_success False response =
              (True, [ShopInfoCallback (Some False) (Some False) JNull])) \<and>
         (js_get response ''shopStatus'' = JStr ''DELIVERY_ONLY'' \<longrightarrow>
            shop_info_success False response =
              (True, [ShopInfoCallback (Some False) (Some True) JNull]))"
  using assms by (simp add: shop_info_success_def shop_status_switch_def)

theorem shop_status_mapping_witness:
  "shop_info_success False (JObj [(''shopStatus'', JStr ''PICKUP_ONLY'')]) =
     (True, [ShopInfoCallback (Some True) (Some False) JNull]) \<and>
   shop_info_success False (JObj [(''other'', JNum 1)]) =
     (True, [ShopInfoCallback (Some True) (Some True) JNull]) \<and>
   shop_info_success False (JObj [(''shopStatus'', JStr ''CLOSED'')]) =
     (True, [ShopInfoCallback (Some False) (Some False) JNull]) \<and>
   shop_info_success False (JObj [(''shopStatus'', JStr ''DELIVERY_ONLY'')]) =
     (True, [ShopInfoCallback (Some False) (Some True) JNull])"
  using shop_status_mapping [of "JObj [(''shopStatus'', JStr ''PICKUP_ONLY'')]"]
    shop_status_mapping [of "JObj [(''other'', JNum 1)]"]
    shop_status_mapping [of "JObj [(''shopStatus'', JStr ''CLOSED'')]"]
    shop_status_mapping [of "JObj [(''shopStatus'', JStr ''DELIVERY_ONLY'')]"]
  by simp



end
